theory Spec2Isabelle
  imports Main "HOL-Library.Word" "HOL-Library.AList"
begin

section \<open>Package events: the job id of an event\<close>

text \<open>
  A \<open>*Uuid\<close> is a pointer to two unsigned 64-bit halves; the pointer may be nil, which
  is \<open>None\<close> here.
\<close>

record Uuid =
  High64 :: "64 word"
  Low64 :: "64 word"

text \<open>
  The payload messages of the event variants are declared outside the sources. The only
  field \<open>JobIdFromEvent\<close> reads of any of them is \<open>JobId\<close>, a \<open>*Uuid\<close>; the payload
  pointer itself is taken to be set, as it is in every decoded message.
\<close>

record JobMessage =
  JobId :: "Uuid option"

text \<open>
  The dynamic type of the oneof field \<open>event.Event\<close>. The nine wrappers are those the
  type switch lists, in its order. \<open>EventSequence_Event_Other\<close> stands for every value
  the switch does not list: an unset (nil) oneof, or a wrapper of a variant that carries
  no job id.
\<close>

datatype isEventSequence_Event_Event =
    EventSequence_Event_SubmitJob JobMessage
  | EventSequence_Event_ReprioritiseJob JobMessage
  | EventSequence_Event_CancelJob JobMessage
  | EventSequence_Event_JobSucceeded JobMessage
  | EventSequence_Event_JobRunSucceeded JobMessage
  | EventSequence_Event_JobRunLeased JobMessage
  | EventSequence_Event_JobRunAssigned JobMessage
  | EventSequence_Event_JobRunRunning JobMessage
  | EventSequence_Event_JobRunErrors JobMessage
  | EventSequence_Event_Other

record EventSequence_Event =
  Event :: isEventSequence_Event_Event

text \<open>\<open>armadaerrors.ErrInvalidArgument\<close>, with the three fields the code sets.\<close>

record ErrInvalidArgument =
  Name :: string
  Value :: isEventSequence_Event_Event
  Message :: string

text \<open>
  \<open>JobIdFromEvent\<close> returns a Go pair \<open>(*Uuid, error)\<close>: the first component is the
  pointer (\<open>None\<close> for nil), the second the error (\<open>None\<close> for nil). Both components are
  kept, since the default branch returns a non-nil pointer together with a non-nil error.
\<close>

fun JobIdFromEvent :: "EventSequence_Event \<Rightarrow> Uuid option \<times> ErrInvalidArgument option" where
  "JobIdFromEvent event =
     (case Event event of
        EventSequence_Event_SubmitJob e \<Rightarrow> (JobId e, None)
      | EventSequence_Event_ReprioritiseJob e \<Rightarrow> (JobId e, None)
      | EventSequence_Event_CancelJob e \<Rightarrow> (JobId e, None)
      | EventSequence_Event_JobSucceeded e \<Rightarrow> (JobId e, None)
      | EventSequence_Event_JobRunSucceeded e \<Rightarrow> (JobId e, None)
      | EventSequence_Event_JobRunLeased e \<Rightarrow> (JobId e, None)
      | EventSequence_Event_JobRunAssigned e \<Rightarrow> (JobId e, None)
      | EventSequence_Event_JobRunRunning e \<Rightarrow> (JobId e, None)
      | EventSequence_Event_JobRunErrors e \<Rightarrow> (JobId e, None)
      | e \<Rightarrow>
          (Some \<lparr>High64 = 0, Low64 = 0\<rparr>,
           Some \<lparr>Name = ''event.Event'', Value = e,
                 Message = ''event doesn't contain a jobId''\<rparr>))"

section \<open>Package service: cluster utilisation\<close>

subsection \<open>Data read from the cluster snapshot\<close>

text \<open>
  \<open>common.ComputeResources\<close> is a Go map from resource name to quantity. A quantity is
  an exact number; it is an \<open>int\<close> here (a count of the smallest unit), which has no
  lower bound.
\<close>

type_synonym ComputeResources = "string \<rightharpoonup> int"

text \<open>The quantity recorded under a name, a missing name counting as zero.\<close>

definition quantity :: "ComputeResources \<Rightarrow> string \<Rightarrow> int" where
  "quantity r k = (case r k of None \<Rightarrow> 0 | Some v \<Rightarrow> v)"

text \<open>
  The fields of \<open>v1.Taint\<close>, \<open>v1.Node\<close> and \<open>v1.Pod\<close> that the package reads, with the
  nested structs flattened: \<open>node.Spec.Unschedulable\<close> is \<open>Node_Spec_Unschedulable\<close>.
  \<open>v1.TaintEffect\<close> and \<open>v1.PodPhase\<close> are string types.
\<close>

record Taint =
  Effect :: string

record Node =
  Node_Name :: string
  Node_Spec_Unschedulable :: bool
  Node_Spec_Taints :: "Taint list"
  Node_Status_Allocatable :: ComputeResources

record Pod =
  Pod_Name :: string
  Pod_Labels :: "string \<rightharpoonup> string"
  Pod_Spec_NodeName :: string
  Pod_Status_Phase :: string
  Pod_Resources :: ComputeResources

definition TaintEffectNoSchedule :: string where
  "TaintEffectNoSchedule = ''NoSchedule''"

definition PodSucceeded :: string where
  "PodSucceeded = ''Succeeded''"

definition PodFailed :: string where
  "PodFailed = ''Failed''"

text \<open>
  The label keys of package \<open>domain\<close>. Their values are not part of the sources, so they
  are a parameter of every function that reads one: \<open>domain.Queue\<close> is \<open>Queue d\<close>.
\<close>

record domain =
  JobIdLabel :: string
  Queue :: string

subsection \<open>Helpers of packages common and util\<close>

text \<open>
  Modelled from the spec: \<open>ComputeResources.Add\<close>, missing from the sources. Addition
  of quantities name by name; it is commutative and associative. A name missing on one
  side counts as zero there, and the result has every name of either side. The Go method
  updates its receiver in place; the model returns the updated receiver.
\<close>

definition Add :: "ComputeResources \<Rightarrow> ComputeResources \<Rightarrow> ComputeResources" where
  "Add a b = (\<lambda>k. case b k of
                     None \<Rightarrow> a k
                   | Some v \<Rightarrow> (case a k of None \<Rightarrow> Some v | Some x \<Rightarrow> Some (x + v)))"

text \<open>
  Modelled from the spec: \<open>ComputeResources.Sub\<close>, missing from the sources.
  Subtraction of quantities name by name; the difference may be negative and is not
  clamped to zero. A name missing on one side counts as zero there.
\<close>

definition Sub :: "ComputeResources \<Rightarrow> ComputeResources \<Rightarrow> ComputeResources" where
  "Sub a b = (\<lambda>k. case b k of
                     None \<Rightarrow> a k
                   | Some v \<Rightarrow> (case a k of None \<Rightarrow> Some (- v) | Some x \<Rightarrow> Some (x - v)))"

text \<open>
  Modelled from the spec: \<open>ComputeResources.DeepCopy\<close>, missing from the sources. An
  explicit copy, so that no value is aliased across callers; values of the model are
  never aliased, and the copy is the value.
\<close>

definition DeepCopy :: "ComputeResources \<Rightarrow> ComputeResources" where
  "DeepCopy a = a"

text \<open>
  Modelled from the spec: \<open>common.CalculateTotalResource\<close>, missing from the sources.
  The total allocatable capacity of a list of nodes.
\<close>

fun CalculateTotalResource_from :: "ComputeResources \<Rightarrow> Node list \<Rightarrow> ComputeResources" where
  "CalculateTotalResource_from totalResources [] = totalResources"
| "CalculateTotalResource_from totalResources (node # nodes) =
     CalculateTotalResource_from (Add totalResources (Node_Status_Allocatable node)) nodes"

definition CalculateTotalResource :: "Node list \<Rightarrow> ComputeResources" where
  "CalculateTotalResource nodes = CalculateTotalResource_from Map.empty nodes"

text \<open>
  Modelled from the spec: \<open>common.CalculateTotalResourceLimit\<close>, missing from the
  sources. The sum of the resources the pods of a list ask for; \<open>Pod_Resources\<close> is what
  one pod asks for.
\<close>

fun CalculateTotalResourceLimit_from :: "ComputeResources \<Rightarrow> Pod list \<Rightarrow> ComputeResources" where
  "CalculateTotalResourceLimit_from totalResources [] = totalResources"
| "CalculateTotalResourceLimit_from totalResources (pod # pods) =
     CalculateTotalResourceLimit_from (Add totalResources (Pod_Resources pod)) pods"

definition CalculateTotalResourceLimit :: "Pod list \<Rightarrow> ComputeResources" where
  "CalculateTotalResourceLimit pods = CalculateTotalResourceLimit_from Map.empty pods"

text \<open>
  Modelled from the spec: \<open>util.FilterNonCompletedPods\<close>, missing from the sources. A
  pod is completed when its phase is succeeded or failed; the others are kept, in order.
\<close>

definition IsInTerminalState :: "Pod \<Rightarrow> bool" where
  "IsInTerminalState pod =
     (Pod_Status_Phase pod = PodSucceeded \<or> Pod_Status_Phase pod = PodFailed)"

fun FilterNonCompletedPods :: "Pod list \<Rightarrow> Pod list" where
  "FilterNonCompletedPods [] = []"
| "FilterNonCompletedPods (pod # pods) =
     (if IsInTerminalState pod then FilterNonCompletedPods pods
      else pod # FilterNonCompletedPods pods)"

text \<open>
  Modelled from the spec: \<open>util.IsManagedPod\<close>, missing from the sources. A managed pod
  is identified by a dedicated label: it is managed when it carries that label.
\<close>

definition IsManagedPod :: "domain \<Rightarrow> Pod \<Rightarrow> bool" where
  "IsManagedPod d pod = (Pod_Labels pod (JobIdLabel d) \<noteq> None)"

text \<open>
  The two selectors handed to a lister: \<open>labels.Everything()\<close> and the result of
  \<open>util.GetManagedPodSelector()\<close>.
\<close>

datatype Selector = Everything | ManagedPodSelector

subsection \<open>The service\<close>

record QueueReport =
  QueueReport_Name :: string
  QueueReport_Resources :: ComputeResources

record ClusterUsageReport =
  ClusterId :: string
  ReportTime :: int
  Queues :: "QueueReport list"
  ClusterCapacity :: ComputeResources

text \<open>
  The listers and the usage client belong to other systems. A lister's \<open>List\<close> returns
  a Go pair of a list and an error (\<open>None\<close> for nil, otherwise the error's text); the
  usage client's \<open>ReportUsage\<close> returns an error for the report it is given.
\<close>

record ClusterUtilisationService =
  ClientId :: string
  PodLister :: "Selector \<Rightarrow> Pod list \<times> string option"
  NodeLister :: "Selector \<Rightarrow> Node list \<times> string option"
  UsageClient :: "ClusterUsageReport \<Rightarrow> string option"

text \<open>
  \<open>isAvailableProcessingNode\<close>: the loop over the taints sets \<open>noSchedule\<close> and breaks
  at the first taint whose effect is \<open>NoSchedule\<close>.
\<close>

fun noSchedule_loop :: "Taint list \<Rightarrow> bool" where
  "noSchedule_loop [] = False"
| "noSchedule_loop (taint # taints) =
     (if Effect taint = TaintEffectNoSchedule then True else noSchedule_loop taints)"

definition isAvailableProcessingNode :: "Node \<Rightarrow> bool" where
  "isAvailableProcessingNode node =
     (if Node_Spec_Unschedulable node then False
      else if noSchedule_loop (Node_Spec_Taints node) then False
      else True)"

fun filterAvailableProcessingNodes_loop :: "Node list \<Rightarrow> Node list \<Rightarrow> Node list" where
  "filterAvailableProcessingNodes_loop processingNodes [] = processingNodes"
| "filterAvailableProcessingNodes_loop processingNodes (node # nodes) =
     (if isAvailableProcessingNode node
      then filterAvailableProcessingNodes_loop (processingNodes @ [node]) nodes
      else filterAvailableProcessingNodes_loop processingNodes nodes)"

definition filterAvailableProcessingNodes :: "Node list \<Rightarrow> Node list" where
  "filterAvailableProcessingNodes nodes = filterAvailableProcessingNodes_loop [] nodes"

definition getAllAvailableProcessingNodes ::
    "ClusterUtilisationService \<Rightarrow> Node list \<times> string option" where
  "getAllAvailableProcessingNodes clusterUtilisationService =
     (case NodeLister clusterUtilisationService Everything of
        (allNodes, Some err) \<Rightarrow> ([], Some err)
      | (allNodes, None) \<Rightarrow> (filterAvailableProcessingNodes allNodes, None))"

text \<open>
  \<open>getAllPodsRequiringResourceOnProcessingNodes\<close>: first the map from node name to node,
  then the loop over the pods.
\<close>

fun nodeMap_loop :: "(string \<rightharpoonup> Node) \<Rightarrow> Node list \<Rightarrow> (string \<rightharpoonup> Node)" where
  "nodeMap_loop nodeMap [] = nodeMap"
| "nodeMap_loop nodeMap (node # workerNodes) =
     nodeMap_loop (nodeMap(Node_Name node \<mapsto> node)) workerNodes"

fun podsUsingResource_loop ::
    "domain \<Rightarrow> (string \<rightharpoonup> Node) \<Rightarrow> Pod list \<Rightarrow> Pod list \<Rightarrow> Pod list" where
  "podsUsingResource_loop d nodeMap podsUsingResourceOnProcessingNodes [] =
     podsUsingResourceOnProcessingNodes"
| "podsUsingResource_loop d nodeMap podsUsingResourceOnProcessingNodes (pod # allPods) =
     (if nodeMap (Pod_Spec_NodeName pod) \<noteq> None
      then podsUsingResource_loop d nodeMap (podsUsingResourceOnProcessingNodes @ [pod]) allPods
      else if IsManagedPod d pod \<and> Pod_Spec_NodeName pod = ''''
      then podsUsingResource_loop d nodeMap (podsUsingResourceOnProcessingNodes @ [pod]) allPods
      else podsUsingResource_loop d nodeMap podsUsingResourceOnProcessingNodes allPods)"

definition getAllPodsRequiringResourceOnProcessingNodes ::
    "domain \<Rightarrow> Pod list \<Rightarrow> Node list \<Rightarrow> Pod list" where
  "getAllPodsRequiringResourceOnProcessingNodes d allPods workerNodes =
     podsUsingResource_loop d (nodeMap_loop Map.empty workerNodes) [] allPods"

text \<open>
  \<open>GetAvailableClusterCapacity\<close> returns a Go pair of a \<open>*ComputeResources\<close> and an
  error. On either listing failure the first component is a new, empty value.
\<close>

definition GetAvailableClusterCapacity ::
    "domain \<Rightarrow> ClusterUtilisationService \<Rightarrow> ComputeResources \<times> string option" where
  "GetAvailableClusterCapacity d clusterUtilisationService =
     (case getAllAvailableProcessingNodes clusterUtilisationService of
        (processingNodes, Some err) \<Rightarrow>
          (Map.empty, Some (''Failed getting available cluster capacity due to: '' @ err))
      | (processingNodes, None) \<Rightarrow>
          (case PodLister clusterUtilisationService Everything of
             (allPods, Some err) \<Rightarrow>
               (Map.empty, Some (''Failed getting available cluster capacity due to: '' @ err))
           | (allPods, None) \<Rightarrow>
               (let allPodsRequiringResource =
                      getAllPodsRequiringResourceOnProcessingNodes d allPods processingNodes;
                    allNonCompletePodsRequiringResource =
                      FilterNonCompletedPods allPodsRequiringResource;
                    totalNodeResource = CalculateTotalResource processingNodes;
                    totalPodResource =
                      CalculateTotalResourceLimit allNonCompletePodsRequiringResource;
                    availableResource = DeepCopy totalNodeResource
                in (Sub availableResource totalPodResource, None))))"

definition getAllActiveManagedPods ::
    "(Selector \<Rightarrow> Pod list \<times> string option) \<Rightarrow> Pod list \<times> string option" where
  "getAllActiveManagedPods podLister =
     (let managedPodSelector = ManagedPodSelector
      in case podLister managedPodSelector of
           (allActiveManagedPods, Some err) \<Rightarrow> ([], Some err)
         | (allActiveManagedPods, None) \<Rightarrow>
             (FilterNonCompletedPods allActiveManagedPods, None))"

text \<open>
  \<open>getUsageByQueue\<close>. The Go map \<open>utilisationByQueue\<close> is an association list with
  one entry for each key, so that \<open>createReportsOfQueueUsages\<close> can walk it; lookup is
  \<open>map_of\<close>. Go leaves the order in which a map is walked open, the list keeps the keys
  in the order of their first insertion. The second component is what the loop logs, one
  line for each call of \<open>log.Errorf\<close>.
\<close>

fun getUsageByQueue_loop ::
    "domain \<Rightarrow> (string \<times> ComputeResources) list \<times> string list \<Rightarrow> Pod list \<Rightarrow>
     (string \<times> ComputeResources) list \<times> string list" where
  "getUsageByQueue_loop d (utilisationByQueue, logged) [] = (utilisationByQueue, logged)"
| "getUsageByQueue_loop d (utilisationByQueue, logged) (pod # pods) =
     (case Pod_Labels pod (Queue d) of
        None \<Rightarrow>
          getUsageByQueue_loop d
            (utilisationByQueue,
             logged @ [''Pod '' @ Pod_Name pod @
                       '' found not belonging to a queue, not reporting its usage''])
            pods
      | Some queue \<Rightarrow>
          (let podComputeResource = CalculateTotalResourceLimit [pod]
           in case map_of utilisationByQueue queue of
                Some existing \<Rightarrow>
                  getUsageByQueue_loop d
                    (AList.update queue (Add existing podComputeResource) utilisationByQueue,
                     logged)
                    pods
              | None \<Rightarrow>
                  getUsageByQueue_loop d
                    (AList.update queue podComputeResource utilisationByQueue, logged)
                    pods))"

definition getUsageByQueue ::
    "domain \<Rightarrow> Pod list \<Rightarrow> (string \<times> ComputeResources) list \<times> string list" where
  "getUsageByQueue d pods = getUsageByQueue_loop d ([], []) pods"

fun queueReports_loop :: "(string \<times> ComputeResources) list \<Rightarrow> QueueReport list" where
  "queueReports_loop [] = []"
| "queueReports_loop ((queueName, queueUsage) # usagesByQueue) =
     \<lparr>QueueReport_Name = queueName, QueueReport_Resources = queueUsage\<rparr>
       # queueReports_loop usagesByQueue"

definition createReportsOfQueueUsages ::
    "domain \<Rightarrow> Pod list \<Rightarrow> QueueReport list \<times> string list" where
  "createReportsOfQueueUsages d pods =
     (case getUsageByQueue d pods of
        (usagesByQueue, logged) \<Rightarrow> (queueReports_loop usagesByQueue, logged))"

definition reportUsage ::
    "ClusterUtilisationService \<Rightarrow> ClusterUsageReport \<Rightarrow> string option" where
  "reportUsage clusterUtilisationService clusterUsage =
     UsageClient clusterUtilisationService clusterUsage"

text \<open>
  What one call of \<open>ReportClusterUtilisation\<close> does to the world: the lines it logs
  and the reports it hands to the usage client, both in order. The function has no
  result and no statement that ends the process, so these effects are all of its
  outcome. \<open>now\<close> is the value of \<open>time.Now()\<close>.
\<close>

record effects =
  logged :: "string list"
  reported :: "ClusterUsageReport list"

definition ReportClusterUtilisation ::
    "domain \<Rightarrow> int \<Rightarrow> ClusterUtilisationService \<Rightarrow> effects" where
  "ReportClusterUtilisation d now clusterUtilisationService =
     (case getAllAvailableProcessingNodes clusterUtilisationService of
        (allAvailableProcessingNodes, Some err) \<Rightarrow>
          \<lparr>logged =
             [''Failed to get required information to report cluster usage because '' @ err],
           reported = []\<rparr>
      | (allAvailableProcessingNodes, None) \<Rightarrow>
          (let totalNodeResource = CalculateTotalResource allAvailableProcessingNodes
           in case getAllActiveManagedPods (PodLister clusterUtilisationService) of
                (allActiveManagedPods, Some err) \<Rightarrow>
                  \<lparr>logged =
                     [''Failed to get required information to report cluster usage because ''
                        @ err],
                   reported = []\<rparr>
              | (allActiveManagedPods, None) \<Rightarrow>
                  (case createReportsOfQueueUsages d allActiveManagedPods of
                     (queueReports, lines) \<Rightarrow>
                       (let clusterUsage =
                              \<lparr>ClusterId = ClientId clusterUtilisationService,
                               ReportTime = now,
                               Queues = queueReports,
                               ClusterCapacity = totalNodeResource\<rparr>
                        in case reportUsage clusterUtilisationService clusterUsage of
                             Some err \<Rightarrow>
                               \<lparr>logged =
                                  lines @ [''Failed to report cluster usage because '' @ err],
                                reported = [clusterUsage]\<rparr>
                           | None \<Rightarrow> \<lparr>logged = lines, reported = [clusterUsage]\<rparr>))))"

section \<open>Package armada: starting and stopping the server\<close>

text \<open>
  The fields of \<open>configuration.ArmadaConfig\<close> that \<open>Serve\<close> and \<open>createServer\<close>
  branch on or name, with nested structs flattened as before. A \<open>time.Duration\<close> is a
  number of nanoseconds.
\<close>

record KafkaConfig =
  Brokers :: "string list"
  Topic :: string
  ConsumerGroupID :: string

record NatsConfig =
  Servers :: "string list"
  ClusterID :: string
  Subject :: string
  QueueGroup :: string

record ArmadaConfig =
  EventsKafka :: KafkaConfig
  EventsNats :: NatsConfig
  GrpcPort :: nat
  BasicAuth_Users :: "(string \<times> string) list"
  OpenIdAuth_ProviderUrl :: string
  AnonymousAuth :: bool
  Kerberos_KeytabLocation :: string
  Scheduling_Lease_ExpiryLoopInterval :: int

definition Millisecond :: int where
  "Millisecond = 1000000"

definition Second :: int where
  "Second = 1000 * Millisecond"

text \<open>
  What the outside world answers to the calls that can fail: the error each returns
  (\<open>None\<close> for nil).
\<close>

record Environment =
  NewOpenIdAuthServiceForProvider :: "string option"
  NewKerberosAuthService :: "string option"
  stan_Connect :: "string option"
  net_Listen :: "string option"
  conn_Close :: "string option"

text \<open>
  A call returns, panics, or ends the process through \<open>log.Fatalf\<close>.
\<close>

datatype 'a outcome = Returned 'a | Panic string | Fatal string

datatype AuthService =
  BasicAuthService | OpenIdAuthService | AnonymousAuthService | KerberosAuthService

text \<open>
  \<open>createServer\<close>: the server it builds differs from call to call only in the list of
  authentication services, which stands for the server here.
\<close>

definition createServer :: "ArmadaConfig \<Rightarrow> Environment \<Rightarrow> AuthService list outcome" where
  "createServer config env =
     (let authServices = [];
          authServices =
            (if length (BasicAuth_Users config) > 0 then authServices @ [BasicAuthService]
             else authServices)
      in case (if OpenIdAuth_ProviderUrl config \<noteq> ''''
               then (case NewOpenIdAuthServiceForProvider env of
                       Some err \<Rightarrow> Panic err
                     | None \<Rightarrow> Returned (authServices @ [OpenIdAuthService]))
               else Returned authServices) of
           Panic err \<Rightarrow> Panic err
         | Fatal err \<Rightarrow> Fatal err
         | Returned authServices \<Rightarrow>
             (let authServices =
                    (if AnonymousAuth config then authServices @ [AnonymousAuthService]
                     else authServices)
              in if Kerberos_KeytabLocation config \<noteq> ''''
                 then (case NewKerberosAuthService env of
                         Some err \<Rightarrow> Panic err
                       | None \<Rightarrow> Returned (authServices @ [KerberosAuthService]))
                 else Returned authServices))"

text \<open>
  The three event stores, the two functions registered with the background task manager,
  and the steps a stop can take.
\<close>

record KafkaWriterConfig =
  Writer_Brokers :: "string list"
  Writer_Topic :: string

record KafkaReaderConfig =
  Reader_Brokers :: "string list"
  Reader_GroupID :: string
  Reader_Topic :: string
  Reader_MaxWait :: int

datatype EventStore =
    KafkaEventStore KafkaWriterConfig
  | NatsEventStore string
  | RedisEventRepository

datatype TaskFunction =
    KafkaEventRedisProcessor_ProcessEvents KafkaReaderConfig
  | LeaseManager_ExpireLeases

record Task =
  Task_function :: TaskFunction
  Task_interval :: int
  Task_metricName :: string

datatype StopStep =
    Nats_conn_Close
  | Log_Errorf string
  | TaskManager_StopAll int
  | GrpcServer_GracefulStop

text \<open>
  The event backend chosen by the if-chain of \<open>Serve\<close>: the event store, the tasks
  registered with the task manager in that chain, whether the NATS processor was
  started, and the steps of \<open>stopSubscription\<close>.
\<close>

record EventBackend =
  Backend_eventStore :: EventStore
  Backend_registered :: "Task list"
  Backend_processorStarted :: bool
  Backend_stopSubscription :: "StopStep list"

definition Serve_eventBackend :: "ArmadaConfig \<Rightarrow> Environment \<Rightarrow> EventBackend outcome" where
  "Serve_eventBackend config env =
     (let stopSubscription = []
      in if length (Brokers (EventsKafka config)) > 0 then
           (let writer = \<lparr>Writer_Brokers = Brokers (EventsKafka config),
                          Writer_Topic = Topic (EventsKafka config)\<rparr>;
                reader = \<lparr>Reader_Brokers = Brokers (EventsKafka config),
                          Reader_GroupID = ConsumerGroupID (EventsKafka config),
                          Reader_Topic = Topic (EventsKafka config),
                          Reader_MaxWait = 500 * Millisecond\<rparr>
            in Returned
                 \<lparr>Backend_eventStore = KafkaEventStore writer,
                  Backend_registered =
                    [\<lparr>Task_function = KafkaEventRedisProcessor_ProcessEvents reader,
                      Task_interval = 100 * Millisecond,
                      Task_metricName = ''kafka_redis_processor''\<rparr>],
                  Backend_processorStarted = False,
                  Backend_stopSubscription = stopSubscription\<rparr>)
         else if length (Servers (EventsNats config)) > 0 then
           (case stan_Connect env of
              Some err \<Rightarrow> Panic err
            | None \<Rightarrow>
                Returned
                  \<lparr>Backend_eventStore = NatsEventStore (Subject (EventsNats config)),
                   Backend_registered = [],
                   Backend_processorStarted = True,
                   Backend_stopSubscription =
                     Nats_conn_Close #
                     (case conn_Close env of
                        Some err \<Rightarrow> [Log_Errorf (''failed to close nats connection: '' @ err)]
                      | None \<Rightarrow> [])\<rparr>)
         else
           Returned
             \<lparr>Backend_eventStore = RedisEventRepository,
              Backend_registered = [],
              Backend_processorStarted = False,
              Backend_stopSubscription = stopSubscription\<rparr>)"

text \<open>
  What \<open>Serve\<close> hands back and leaves behind: the server, the event store given to the
  servers and the lease manager, the tasks registered, whether the NATS processor runs,
  and the steps the returned stop function takes when it is called, in order. The
  goroutine that serves requests runs beside the caller and is left out.
\<close>

record Served =
  grpcServer :: "AuthService list"
  eventStore :: EventStore
  registered :: "Task list"
  processorStarted :: bool
  stop :: "StopStep list"

definition Serve :: "ArmadaConfig \<Rightarrow> Environment \<Rightarrow> Served outcome" where
  "Serve config env =
     (case createServer config env of
        Panic err \<Rightarrow> Panic err
      | Fatal err \<Rightarrow> Fatal err
      | Returned server \<Rightarrow>
          (case Serve_eventBackend config env of
             Panic err \<Rightarrow> Panic err
           | Fatal err \<Rightarrow> Fatal err
           | Returned backend \<Rightarrow>
               (let tasks =
                      Backend_registered backend @
                      [\<lparr>Task_function = LeaseManager_ExpireLeases,
                        Task_interval = Scheduling_Lease_ExpiryLoopInterval config,
                        Task_metricName = ''lease_expiry''\<rparr>]
                in case net_Listen env of
                     Some err \<Rightarrow> Fatal (''failed to listen: '' @ err)
                   | None \<Rightarrow>
                       Returned
                         \<lparr>grpcServer = server,
                          eventStore = Backend_eventStore backend,
                          registered = tasks,
                          processorStarted = Backend_processorStarted backend,
                          stop =
                            Backend_stopSubscription backend @
                            [TaskManager_StopAll (Second * 2), GrpcServer_GracefulStop]\<rparr>)))"

section \<open>Example inputs\<close>

text \<open>
  A small cluster, a small configuration and an environment, on which the functions above
  are run.
\<close>

definition example_domain :: domain where
  "example_domain = \<lparr>JobIdLabel = ''armada_job_id'', Queue = ''armada_queue_id''\<rparr>"

definition example_worker_1 :: Node where
  "example_worker_1 =
     \<lparr>Node_Name = ''worker-1'', Node_Spec_Unschedulable = False, Node_Spec_Taints = [],
      Node_Status_Allocatable = [''cpu'' \<mapsto> 4]\<rparr>"

definition example_worker_2 :: Node where
  "example_worker_2 =
     \<lparr>Node_Name = ''worker-2'', Node_Spec_Unschedulable = True, Node_Spec_Taints = [],
      Node_Status_Allocatable = [''cpu'' \<mapsto> 100]\<rparr>"

definition example_master_1 :: Node where
  "example_master_1 =
     \<lparr>Node_Name = ''master-1'', Node_Spec_Unschedulable = False,
      Node_Spec_Taints = [\<lparr>Effect = ''PreferNoSchedule''\<rparr>, \<lparr>Effect = ''NoSchedule''\<rparr>],
      Node_Status_Allocatable = [''cpu'' \<mapsto> 100]\<rparr>"

definition example_nodes :: "Node list" where
  "example_nodes = [example_worker_1, example_worker_2, example_master_1]"

definition example_pod_a :: Pod where
  "example_pod_a =
     \<lparr>Pod_Name = ''a'',
      Pod_Labels = [''armada_job_id'' \<mapsto> ''1'', ''armada_queue_id'' \<mapsto> ''q1''],
      Pod_Spec_NodeName = ''worker-1'', Pod_Status_Phase = ''Running'',
      Pod_Resources = [''cpu'' \<mapsto> 3]\<rparr>"

definition example_pod_b :: Pod where
  "example_pod_b =
     \<lparr>Pod_Name = ''b'',
      Pod_Labels = [''armada_job_id'' \<mapsto> ''2'', ''armada_queue_id'' \<mapsto> ''q1''],
      Pod_Spec_NodeName = '''', Pod_Status_Phase = ''Pending'',
      Pod_Resources = [''cpu'' \<mapsto> 2, ''memory'' \<mapsto> 8]\<rparr>"

definition example_pod_c :: Pod where
  "example_pod_c =
     \<lparr>Pod_Name = ''c'',
      Pod_Labels = [''armada_job_id'' \<mapsto> ''3''],
      Pod_Spec_NodeName = ''worker-1'', Pod_Status_Phase = ''Succeeded'',
      Pod_Resources = [''cpu'' \<mapsto> 50]\<rparr>"

definition example_pod_d :: Pod where
  "example_pod_d =
     \<lparr>Pod_Name = ''d'',
      Pod_Labels = Map.empty,
      Pod_Spec_NodeName = ''worker-2'', Pod_Status_Phase = ''Running'',
      Pod_Resources = [''cpu'' \<mapsto> 7]\<rparr>"

definition example_pod_e :: Pod where
  "example_pod_e =
     \<lparr>Pod_Name = ''e'',
      Pod_Labels = Map.empty,
      Pod_Spec_NodeName = '''', Pod_Status_Phase = ''Pending'',
      Pod_Resources = [''cpu'' \<mapsto> 9]\<rparr>"

definition example_pods :: "Pod list" where
  "example_pods = [example_pod_a, example_pod_b, example_pod_c, example_pod_d, example_pod_e]"

definition example_service :: ClusterUtilisationService where
  "example_service =
     \<lparr>ClientId = ''cluster-1'',
      PodLister = (\<lambda>selector. (example_pods, None)),
      NodeLister = (\<lambda>selector. (example_nodes, None)),
      UsageClient = (\<lambda>report. None)\<rparr>"

definition example_service_no_nodes :: ClusterUtilisationService where
  "example_service_no_nodes =
     \<lparr>ClientId = ''cluster-1'',
      PodLister = (\<lambda>selector. (example_pods, None)),
      NodeLister = (\<lambda>selector. ([], Some ''timeout'')),
      UsageClient = (\<lambda>report. None)\<rparr>"

definition example_service_no_pods :: ClusterUtilisationService where
  "example_service_no_pods =
     \<lparr>ClientId = ''cluster-1'',
      PodLister = (\<lambda>selector. ([], Some ''refused'')),
      NodeLister = (\<lambda>selector. (example_nodes, None)),
      UsageClient = (\<lambda>report. None)\<rparr>"

definition example_config :: ArmadaConfig where
  "example_config =
     \<lparr>EventsKafka = \<lparr>Brokers = [''kafka:9092''], Topic = ''events'', ConsumerGroupID = ''armada''\<rparr>,
      EventsNats = \<lparr>Servers = [''nats://nats:4222''], ClusterID = ''c'', Subject = ''ArmadaEvents'',
                    QueueGroup = ''g''\<rparr>,
      GrpcPort = 50051,
      BasicAuth_Users = [],
      OpenIdAuth_ProviderUrl = '''',
      AnonymousAuth = True,
      Kerberos_KeytabLocation = '''',
      Scheduling_Lease_ExpiryLoopInterval = 5 * Second\<rparr>"

definition example_config_nats :: ArmadaConfig where
  "example_config_nats =
     example_config\<lparr>EventsKafka := \<lparr>Brokers = [], Topic = '''', ConsumerGroupID = ''''\<rparr>\<rparr>"

definition example_environment :: Environment where
  "example_environment =
     \<lparr>NewOpenIdAuthServiceForProvider = None,
      NewKerberosAuthService = None,
      stan_Connect = None,
      net_Listen = None,
      conn_Close = Some ''closed''\<rparr>"

section \<open>Properties of the loops and helpers\<close>

lemma quantity_Add: "quantity (Add a b) k = quantity a k + quantity b k"
  by (simp add: quantity_def Add_def split: option.splits)

lemma quantity_Sub: "quantity (Sub a b) k = quantity a k - quantity b k"
  by (simp add: quantity_def Sub_def split: option.splits)

lemma quantity_empty: "quantity Map.empty k = 0"
  by (simp add: quantity_def)

lemma Add_commute: "Add a b = Add b a"
  by (rule ext) (simp add: Add_def split: option.splits)

lemma Add_assoc: "Add (Add a b) c = Add a (Add b c)"
  by (rule ext) (simp add: Add_def split: option.splits)

lemma Add_empty_left: "Add Map.empty b = b"
  by (rule ext) (simp add: Add_def split: option.splits)

lemma quantity_CalculateTotalResource_from:
  "quantity (CalculateTotalResource_from t nodes) k =
     quantity t k + (\<Sum>node\<leftarrow>nodes. quantity (Node_Status_Allocatable node) k)"
  by (induction nodes arbitrary: t) (simp_all add: quantity_Add)

lemma quantity_CalculateTotalResource:
  "quantity (CalculateTotalResource nodes) k =
     (\<Sum>node\<leftarrow>nodes. quantity (Node_Status_Allocatable node) k)"
  by (simp add: CalculateTotalResource_def quantity_CalculateTotalResource_from quantity_empty)

lemma quantity_CalculateTotalResourceLimit_from:
  "quantity (CalculateTotalResourceLimit_from t pods) k =
     quantity t k + (\<Sum>pod\<leftarrow>pods. quantity (Pod_Resources pod) k)"
  by (induction pods arbitrary: t) (simp_all add: quantity_Add)

lemma quantity_CalculateTotalResourceLimit:
  "quantity (CalculateTotalResourceLimit pods) k =
     (\<Sum>pod\<leftarrow>pods. quantity (Pod_Resources pod) k)"
  by (simp add: CalculateTotalResourceLimit_def quantity_CalculateTotalResourceLimit_from
      quantity_empty)

lemma CalculateTotalResourceLimit_single:
  "CalculateTotalResourceLimit [pod] = Pod_Resources pod"
  by (simp add: CalculateTotalResourceLimit_def Add_empty_left)

lemma noSchedule_loop_iff:
  "noSchedule_loop taints \<longleftrightarrow> (\<exists>taint\<in>set taints. Effect taint = TaintEffectNoSchedule)"
  by (induction taints) simp_all

lemma isAvailableProcessingNode_iff:
  "isAvailableProcessingNode node \<longleftrightarrow>
     \<not> Node_Spec_Unschedulable node \<and>
     (\<forall>taint\<in>set (Node_Spec_Taints node). Effect taint \<noteq> TaintEffectNoSchedule)"
  by (simp add: isAvailableProcessingNode_def noSchedule_loop_iff)

lemma filterAvailableProcessingNodes_loop_eq:
  "filterAvailableProcessingNodes_loop acc nodes = acc @ filter isAvailableProcessingNode nodes"
  by (induction nodes arbitrary: acc) simp_all

lemma filterAvailableProcessingNodes_eq:
  "filterAvailableProcessingNodes nodes = filter isAvailableProcessingNode nodes"
  by (simp add: filterAvailableProcessingNodes_def filterAvailableProcessingNodes_loop_eq)

lemma nodeMap_loop_present:
  "nodeMap_loop m nodes name \<noteq> None \<longleftrightarrow> m name \<noteq> None \<or> name \<in> Node_Name ` set nodes"
  by (induction nodes arbitrary: m) auto

lemma podsUsingResource_loop_eq:
  "podsUsingResource_loop d m acc pods =
     acc @ filter (\<lambda>pod. m (Pod_Spec_NodeName pod) \<noteq> None \<or>
                         (IsManagedPod d pod \<and> Pod_Spec_NodeName pod = '''')) pods"
  by (induction pods arbitrary: acc) simp_all

lemma getAllPodsRequiringResourceOnProcessingNodes_eq:
  "getAllPodsRequiringResourceOnProcessingNodes d allPods workerNodes =
     filter (\<lambda>pod. Pod_Spec_NodeName pod \<in> Node_Name ` set workerNodes \<or>
                    (IsManagedPod d pod \<and> Pod_Spec_NodeName pod = '''')) allPods"
proof -
  have "\<And>name. (nodeMap_loop Map.empty workerNodes name \<noteq> None) =
          (name \<in> Node_Name ` set workerNodes)"
    using nodeMap_loop_present [of Map.empty workerNodes] by simp
  then show ?thesis
    by (simp add: getAllPodsRequiringResourceOnProcessingNodes_def podsUsingResource_loop_eq
        del: not_None_eq)
qed

lemma FilterNonCompletedPods_eq:
  "FilterNonCompletedPods pods = filter (\<lambda>pod. \<not> IsInTerminalState pod) pods"
  by (induction pods) simp_all

lemma getUsageByQueue_loop_logged:
  "snd (getUsageByQueue_loop d (u, lg) pods) =
     lg @ map (\<lambda>pod. ''Pod '' @ Pod_Name pod @
                  '' found not belonging to a queue, not reporting its usage'')
            (filter (\<lambda>pod. Pod_Labels pod (Queue d) = None) pods)"
  by (induction pods arbitrary: u lg) (simp_all split: option.splits add: Let_def)

lemma getUsageByQueue_loop_distinct:
  "distinct (map fst u) \<Longrightarrow> distinct (map fst (fst (getUsageByQueue_loop d (u, lg) pods)))"
  by (induction pods arbitrary: u lg)
    (simp_all split: option.splits add: Let_def distinct_update)

lemma getUsageByQueue_loop_lookup:
  "map_of (fst (getUsageByQueue_loop d (u, lg) pods)) queue =
     foldl (\<lambda>total pod. case total of
                           None \<Rightarrow> Some (CalculateTotalResourceLimit [pod])
                         | Some existing \<Rightarrow>
                             Some (Add existing (CalculateTotalResourceLimit [pod])))
       (map_of u queue)
       (filter (\<lambda>pod. Pod_Labels pod (Queue d) = Some queue) pods)"
proof (induction pods arbitrary: u lg)
  case Nil
  show ?case by simp
next
  case (Cons pod pods)
  show ?case
  proof (cases "Pod_Labels pod (Queue d)")
    case None
    then show ?thesis using Cons.IH [of u] by simp
  next
    case (Some q)
    show ?thesis
    proof (cases "map_of u q")
      case None
      then show ?thesis
        using Some Cons.IH [of "AList.update q (CalculateTotalResourceLimit [pod]) u" lg]
        by (auto simp add: Let_def update_conv')
    next
      case (Some existing)
      then show ?thesis
        using \<open>Pod_Labels pod (Queue d) = Some q\<close>
          Cons.IH [of "AList.update q (Add existing (CalculateTotalResourceLimit [pod])) u" lg]
        by (auto simp add: Let_def update_conv')
    qed
  qed
qed

lemma foldl_Some_Add:
  "foldl (\<lambda>total pod. case total of
                         None \<Rightarrow> Some (CalculateTotalResourceLimit [pod])
                       | Some existing \<Rightarrow>
                           Some (Add existing (CalculateTotalResourceLimit [pod])))
     (Some r) pods =
   Some (foldl Add r (map (\<lambda>pod. CalculateTotalResourceLimit [pod]) pods))"
  by (induction pods arbitrary: r) simp_all

lemma Serve_Returned:
  assumes "Serve config env = Returned s"
  obtains server backend where
    "createServer config env = Returned server"
    "Serve_eventBackend config env = Returned backend"
    "net_Listen env = None"
    "s = \<lparr>grpcServer = server,
          eventStore = Backend_eventStore backend,
          registered =
            Backend_registered backend @
            [\<lparr>Task_function = LeaseManager_ExpireLeases,
              Task_interval = Scheduling_Lease_ExpiryLoopInterval config,
              Task_metricName = ''lease_expiry''\<rparr>],
          processorStarted = Backend_processorStarted backend,
          stop =
            Backend_stopSubscription backend @
            [TaskManager_StopAll (Second * 2), GrpcServer_GracefulStop]\<rparr>"
  using assms
  by (auto simp add: Serve_def Let_def split: outcome.splits option.splits)

lemmas example_defs =
  example_domain_def example_worker_1_def example_worker_2_def example_master_1_def
  example_nodes_def example_pod_a_def example_pod_b_def example_pod_c_def example_pod_d_def
  example_pod_e_def example_pods_def example_service_def

section \<open>The claims\<close>

text \<open>
  C1. When both listings succeed, \<open>GetAvailableClusterCapacity\<close> returns, with no
  error, the total capacity of the available processing nodes minus the sum of what is
  asked for by the pods that are not completed and that are bound to one of those nodes
  or, being managed, are bound to no node yet. Under every resource name the returned
  quantity is that integer difference, with no floor at zero: the witness has a cluster
  whose result is negative.
\<close>

theorem GetAvailableClusterCapacity_difference:
  assumes nodes: "NodeLister svc Everything = (allNodes, None)"
    and pods: "PodLister svc Everything = (allPods, None)"
  shows "GetAvailableClusterCapacity d svc =
           (Sub (CalculateTotalResource (filter isAvailableProcessingNode allNodes))
              (CalculateTotalResourceLimit
                 (filter (\<lambda>pod. \<not> IsInTerminalState pod \<and>
                            (Pod_Spec_NodeName pod \<in>
                               Node_Name ` set (filter isAvailableProcessingNode allNodes) \<or>
                             (IsManagedPod d pod \<and> Pod_Spec_NodeName pod = '''')))
                    allPods)),
            None)
         \<and> (\<forall>k. quantity (fst (GetAvailableClusterCapacity d svc)) k =
                  (\<Sum>node\<leftarrow>filter isAvailableProcessingNode allNodes.
                      quantity (Node_Status_Allocatable node) k) -
                  (\<Sum>pod\<leftarrow>filter (\<lambda>pod. \<not> IsInTerminalState pod \<and>
                            (Pod_Spec_NodeName pod \<in>
                               Node_Name ` set (filter isAvailableProcessingNode allNodes) \<or>
                             (IsManagedPod d pod \<and> Pod_Spec_NodeName pod = '''')))
                    allPods. quantity (Pod_Resources pod) k))"
proof -
  have filters: "FilterNonCompletedPods
          (getAllPodsRequiringResourceOnProcessingNodes d allPods
             (filter isAvailableProcessingNode allNodes)) =
        filter (\<lambda>pod. \<not> IsInTerminalState pod \<and>
                  (Pod_Spec_NodeName pod \<in>
                     Node_Name ` set (filter isAvailableProcessingNode allNodes) \<or>
                   (IsManagedPod d pod \<and> Pod_Spec_NodeName pod = '''')))
          allPods"
    by (simp add: FilterNonCompletedPods_eq getAllPodsRequiringResourceOnProcessingNodes_eq
        conj_commute)
  have result: "GetAvailableClusterCapacity d svc =
           (Sub (CalculateTotalResource (filter isAvailableProcessingNode allNodes))
              (CalculateTotalResourceLimit
                 (FilterNonCompletedPods
                    (getAllPodsRequiringResourceOnProcessingNodes d allPods
                       (filter isAvailableProcessingNode allNodes)))),
            None)"
    by (simp add: GetAvailableClusterCapacity_def getAllAvailableProcessingNodes_def nodes pods
        filterAvailableProcessingNodes_eq DeepCopy_def Let_def)
  show ?thesis
    unfolding result filters
    by (simp add: quantity_Sub quantity_CalculateTotalResource
        quantity_CalculateTotalResourceLimit)
qed

text \<open>The statement above at a concrete input.\<close>

theorem GetAvailableClusterCapacity_difference_witness:
  "NodeLister example_service Everything = (example_nodes, None)
   \<and> PodLister example_service Everything = (example_pods, None)
   \<and> snd (GetAvailableClusterCapacity example_domain example_service) = None
   \<and> fst (GetAvailableClusterCapacity example_domain example_service) ''cpu'' = Some (- 1)
   \<and> quantity (fst (GetAvailableClusterCapacity example_domain example_service)) ''cpu'' = - 1"
proof -
  have nodes: "NodeLister example_service Everything = (example_nodes, None)"
    by (simp add: example_service_def)
  have pods: "PodLister example_service Everything = (example_pods, None)"
    by (simp add: example_service_def)
  show ?thesis
    using GetAvailableClusterCapacity_difference [OF nodes pods, of example_domain]
    by (simp add: example_defs isAvailableProcessingNode_def TaintEffectNoSchedule_def
        IsInTerminalState_def PodSucceeded_def PodFailed_def IsManagedPod_def
        CalculateTotalResource_def CalculateTotalResourceLimit_def Add_def Sub_def
        quantity_def)
qed

text \<open>
  C2. \<open>JobIdFromEvent\<close> has a result for every event. For each of the nine variants
  that carry a job id (submit, reprioritise, cancel, job succeeded, run succeeded, run
  leased, run assigned, run running, run errors) the result is that variant's job id and
  no error. For a value of any other kind the caller is given an invalid-argument error
  that names \<open>event.Event\<close> and holds the value. An error is returned for exactly those.
\<close>

theorem JobIdFromEvent_total:
  "JobIdFromEvent \<lparr>Event = EventSequence_Event_SubmitJob e\<rparr> = (JobId e, None)
   \<and> JobIdFromEvent \<lparr>Event = EventSequence_Event_ReprioritiseJob e\<rparr> = (JobId e, None)
   \<and> JobIdFromEvent \<lparr>Event = EventSequence_Event_CancelJob e\<rparr> = (JobId e, None)
   \<and> JobIdFromEvent \<lparr>Event = EventSequence_Event_JobSucceeded e\<rparr> = (JobId e, None)
   \<and> JobIdFromEvent \<lparr>Event = EventSequence_Event_JobRunSucceeded e\<rparr> = (JobId e, None)
   \<and> JobIdFromEvent \<lparr>Event = EventSequence_Event_JobRunLeased e\<rparr> = (JobId e, None)
   \<and> JobIdFromEvent \<lparr>Event = EventSequence_Event_JobRunAssigned e\<rparr> = (JobId e, None)
   \<and> JobIdFromEvent \<lparr>Event = EventSequence_Event_JobRunRunning e\<rparr> = (JobId e, None)
   \<and> JobIdFromEvent \<lparr>Event = EventSequence_Event_JobRunErrors e\<rparr> = (JobId e, None)
   \<and> snd (JobIdFromEvent \<lparr>Event = EventSequence_Event_Other\<rparr>) =
       Some \<lparr>Name = ''event.Event'', Value = EventSequence_Event_Other,
             Message = ''event doesn't contain a jobId''\<rparr>
   \<and> (snd (JobIdFromEvent event) = None) = (Event event \<noteq> EventSequence_Event_Other)"
  by (simp split: isEventSequence_Event_Event.splits)

text \<open>The statement above at a concrete input.\<close>

theorem JobIdFromEvent_total_witness:
  "JobIdFromEvent
     \<lparr>Event = EventSequence_Event_CancelJob \<lparr>JobId = Some \<lparr>High64 = 7, Low64 = 9\<rparr>\<rparr>\<rparr> =
     (Some \<lparr>High64 = 7, Low64 = 9\<rparr>, None)
   \<and> JobIdFromEvent \<lparr>Event = EventSequence_Event_JobRunErrors \<lparr>JobId = None\<rparr>\<rparr> = (None, None)
   \<and> snd (JobIdFromEvent \<lparr>Event = EventSequence_Event_Other\<rparr>) \<noteq> None"
  using JobIdFromEvent_total [of "\<lparr>JobId = Some \<lparr>High64 = 7, Low64 = 9\<rparr>\<rparr>"
      "\<lparr>Event = EventSequence_Event_Other\<rparr>"]
    JobIdFromEvent_total [of "\<lparr>JobId = None\<rparr>" "\<lparr>Event = EventSequence_Event_Other\<rparr>"]
  by simp

text \<open>
  C3. A node is an available processing node exactly when it is not marked unschedulable
  and none of its taints has the effect \<open>NoSchedule\<close>. \<open>filterAvailableProcessingNodes\<close>
  keeps exactly those nodes, in order, so no node that is unschedulable or carries a
  \<open>NoSchedule\<close> taint is among the nodes from which capacity is computed.
\<close>

theorem available_processing_node_iff:
  "(isAvailableProcessingNode node \<longleftrightarrow>
      \<not> Node_Spec_Unschedulable node \<and>
      (\<forall>taint\<in>set (Node_Spec_Taints node). Effect taint \<noteq> TaintEffectNoSchedule))
   \<and> filterAvailableProcessingNodes nodes =
       filter (\<lambda>node. \<not> Node_Spec_Unschedulable node \<and>
                 (\<forall>taint\<in>set (Node_Spec_Taints node). Effect taint \<noteq> TaintEffectNoSchedule))
         nodes
   \<and> (\<forall>node\<in>set (fst (getAllAvailableProcessingNodes svc)).
         \<not> Node_Spec_Unschedulable node \<and>
         (\<forall>taint\<in>set (Node_Spec_Taints node). Effect taint \<noteq> TaintEffectNoSchedule))"
proof (intro conjI)
  show "isAvailableProcessingNode node \<longleftrightarrow>
      \<not> Node_Spec_Unschedulable node \<and>
      (\<forall>taint\<in>set (Node_Spec_Taints node). Effect taint \<noteq> TaintEffectNoSchedule)"
    by (rule isAvailableProcessingNode_iff)
  have pred: "isAvailableProcessingNode =
      (\<lambda>node. \<not> Node_Spec_Unschedulable node \<and>
         (\<forall>taint\<in>set (Node_Spec_Taints node). Effect taint \<noteq> TaintEffectNoSchedule))"
    by (rule ext) (rule isAvailableProcessingNode_iff)
  show "filterAvailableProcessingNodes nodes =
       filter (\<lambda>node. \<not> Node_Spec_Unschedulable node \<and>
                 (\<forall>taint\<in>set (Node_Spec_Taints node). Effect taint \<noteq> TaintEffectNoSchedule))
         nodes"
    by (simp only: filterAvailableProcessingNodes_eq pred)
  show "\<forall>node\<in>set (fst (getAllAvailableProcessingNodes svc)).
         \<not> Node_Spec_Unschedulable node \<and>
         (\<forall>taint\<in>set (Node_Spec_Taints node). Effect taint \<noteq> TaintEffectNoSchedule)"
    by (simp add: getAllAvailableProcessingNodes_def filterAvailableProcessingNodes_eq
        isAvailableProcessingNode_iff split: prod.splits option.splits)
qed

text \<open>The statement above at a concrete input.\<close>

theorem available_processing_node_iff_witness:
  "isAvailableProcessingNode example_worker_1
   \<and> \<not> isAvailableProcessingNode example_worker_2
   \<and> \<not> isAvailableProcessingNode example_master_1
   \<and> filterAvailableProcessingNodes example_nodes = [example_worker_1]
   \<and> fst (getAllAvailableProcessingNodes example_service) = [example_worker_1]"
  using available_processing_node_iff [of example_worker_1 example_nodes example_service]
    available_processing_node_iff [of example_worker_2 example_nodes example_service]
    available_processing_node_iff [of example_master_1 example_nodes example_service]
  by (simp add: example_defs TaintEffectNoSchedule_def getAllAvailableProcessingNodes_def)

text \<open>
  C4. \<open>getAllPodsRequiringResourceOnProcessingNodes\<close> selects, in order, exactly the
  pods that are bound to one of the given processing nodes or are managed pods with an
  empty node name. A pod bound to a node that is not among them is not selected.
\<close>

theorem pods_requiring_resource_iff:
  "getAllPodsRequiringResourceOnProcessingNodes d allPods workerNodes =
     filter (\<lambda>pod. Pod_Spec_NodeName pod \<in> Node_Name ` set workerNodes \<or>
                    (IsManagedPod d pod \<and> Pod_Spec_NodeName pod = '''')) allPods
   \<and> (\<forall>pod\<in>set allPods.
         Pod_Spec_NodeName pod \<noteq> '''' \<and> Pod_Spec_NodeName pod \<notin> Node_Name ` set workerNodes \<longrightarrow>
         pod \<notin> set (getAllPodsRequiringResourceOnProcessingNodes d allPods workerNodes))"
  by (simp add: getAllPodsRequiringResourceOnProcessingNodes_eq)

text \<open>The statement above at a concrete input.\<close>

theorem pods_requiring_resource_iff_witness:
  "getAllPodsRequiringResourceOnProcessingNodes example_domain example_pods [example_worker_1] =
     [example_pod_a, example_pod_b, example_pod_c]
   \<and> example_pod_d \<in> set example_pods
   \<and> Pod_Spec_NodeName example_pod_d \<noteq> ''''
   \<and> Pod_Spec_NodeName example_pod_d \<notin> Node_Name ` set [example_worker_1]
   \<and> example_pod_d \<notin>
       set (getAllPodsRequiringResourceOnProcessingNodes example_domain example_pods
              [example_worker_1])"
  using pods_requiring_resource_iff [of example_domain example_pods "[example_worker_1]"]
  by (simp add: example_defs IsManagedPod_def)

text \<open>
  C5. If listing the nodes fails or listing the active managed pods fails,
  \<open>ReportClusterUtilisation\<close> hands no report to the usage client, logs exactly one
  line that carries the error of the failed listing, and returns.
\<close>

theorem ReportClusterUtilisation_aborts:
  assumes "snd (NodeLister svc Everything) \<noteq> None \<or> snd (PodLister svc ManagedPodSelector) \<noteq> None"
  shows "reported (ReportClusterUtilisation d now svc) = []
         \<and> (\<exists>err. logged (ReportClusterUtilisation d now svc) =
                    [''Failed to get required information to report cluster usage because ''
                       @ err]
                  \<and> (snd (NodeLister svc Everything) = Some err
                     \<or> snd (PodLister svc ManagedPodSelector) = Some err))"
  using assms
  by (cases "NodeLister svc Everything"; cases "PodLister svc ManagedPodSelector")
    (auto simp add: ReportClusterUtilisation_def getAllAvailableProcessingNodes_def
      getAllActiveManagedPods_def Let_def split: option.splits)

text \<open>The statement above at a concrete input.\<close>

theorem ReportClusterUtilisation_aborts_witness:
  "snd (NodeLister example_service_no_nodes Everything) \<noteq> None
   \<and> reported (ReportClusterUtilisation example_domain 0 example_service_no_nodes) = []
   \<and> logged (ReportClusterUtilisation example_domain 0 example_service_no_nodes) =
       [''Failed to get required information to report cluster usage because timeout'']
   \<and> snd (PodLister example_service_no_pods ManagedPodSelector) \<noteq> None
   \<and> reported (ReportClusterUtilisation example_domain 0 example_service_no_pods) = []
   \<and> logged (ReportClusterUtilisation example_domain 0 example_service_no_pods) =
       [''Failed to get required information to report cluster usage because refused'']"
  using ReportClusterUtilisation_aborts [of example_service_no_nodes example_domain 0]
    ReportClusterUtilisation_aborts [of example_service_no_pods example_domain 0]
  by (simp add: example_service_no_nodes_def example_service_no_pods_def)

text \<open>
  C6. \<open>getUsageByQueue\<close> groups the pods by their queue label. A queue that labels no
  pod of the list has no entry. Otherwise its entry starts as the resources of the first
  pod with that label, and the resources of each later pod with that label are added to
  it, in order. A pod without the label enters no entry; one line naming it is logged
  and the loop goes on. No queue has two entries.
\<close>

theorem getUsageByQueue_groups_by_queue:
  "map_of (fst (getUsageByQueue d pods)) queue =
     (case filter (\<lambda>pod. Pod_Labels pod (Queue d) = Some queue) pods of
        [] \<Rightarrow> None
      | first # rest \<Rightarrow>
          Some (foldl Add (CalculateTotalResourceLimit [first])
                  (map (\<lambda>pod. CalculateTotalResourceLimit [pod]) rest)))
   \<and> snd (getUsageByQueue d pods) =
       map (\<lambda>pod. ''Pod '' @ Pod_Name pod @
              '' found not belonging to a queue, not reporting its usage'')
         (filter (\<lambda>pod. Pod_Labels pod (Queue d) = None) pods)
   \<and> distinct (map fst (fst (getUsageByQueue d pods)))"
proof (intro conjI)
  show "map_of (fst (getUsageByQueue d pods)) queue =
     (case filter (\<lambda>pod. Pod_Labels pod (Queue d) = Some queue) pods of
        [] \<Rightarrow> None
      | first # rest \<Rightarrow>
          Some (foldl Add (CalculateTotalResourceLimit [first])
                  (map (\<lambda>pod. CalculateTotalResourceLimit [pod]) rest)))"
    by (simp add: getUsageByQueue_def getUsageByQueue_loop_lookup foldl_Some_Add
        split: list.splits)
  show "snd (getUsageByQueue d pods) =
       map (\<lambda>pod. ''Pod '' @ Pod_Name pod @
              '' found not belonging to a queue, not reporting its usage'')
         (filter (\<lambda>pod. Pod_Labels pod (Queue d) = None) pods)"
    by (simp add: getUsageByQueue_def getUsageByQueue_loop_logged)
  show "distinct (map fst (fst (getUsageByQueue d pods)))"
    by (simp add: getUsageByQueue_def getUsageByQueue_loop_distinct)
qed

text \<open>The statement above at a concrete input.\<close>

theorem getUsageByQueue_groups_by_queue_witness:
  "map_of (fst (getUsageByQueue example_domain example_pods)) ''q1'' =
     Some (Add (Pod_Resources example_pod_a) (Pod_Resources example_pod_b))
   \<and> map_of (fst (getUsageByQueue example_domain example_pods)) ''q2'' = None
   \<and> snd (getUsageByQueue example_domain example_pods) =
       [''Pod c found not belonging to a queue, not reporting its usage'',
        ''Pod d found not belonging to a queue, not reporting its usage'',
        ''Pod e found not belonging to a queue, not reporting its usage'']"
  using getUsageByQueue_groups_by_queue [of example_domain example_pods "''q1''"]
    getUsageByQueue_groups_by_queue [of example_domain example_pods "''q2''"]
  by (simp add: example_defs CalculateTotalResourceLimit_single)

text \<open>
  C7. For two pods \<open>A\<close> and \<open>B\<close> of the same queue, the usage by queue computed from
  \<open>[A, B]\<close> is the usage computed from \<open>[B, A]\<close>.
\<close>

theorem getUsageByQueue_commutes:
  assumes "Pod_Labels A (Queue d) = Some queue" and "Pod_Labels B (Queue d) = Some queue"
  shows "getUsageByQueue d [A, B] = getUsageByQueue d [B, A]"
  using assms
  by (simp add: getUsageByQueue_def Let_def Add_commute [of "CalculateTotalResourceLimit [A]"])

text \<open>The statement above at a concrete input.\<close>

theorem getUsageByQueue_commutes_witness:
  "Pod_Labels example_pod_a (Queue example_domain) = Some ''q1''
   \<and> Pod_Labels example_pod_b (Queue example_domain) = Some ''q1''
   \<and> getUsageByQueue example_domain [example_pod_a, example_pod_b] =
       getUsageByQueue example_domain [example_pod_b, example_pod_a]"
proof -
  have a: "Pod_Labels example_pod_a (Queue example_domain) = Some ''q1''"
    by (simp add: example_defs)
  have b: "Pod_Labels example_pod_b (Queue example_domain) = Some ''q1''"
    by (simp add: example_defs)
  show ?thesis
    using a b getUsageByQueue_commutes [OF a b] by simp
qed

text \<open>
  C8. Whenever \<open>Serve\<close> returns, the stop function it returns first runs
  \<open>stopSubscription\<close>, then stops the task manager with a timeout of two seconds, then
  stops the server gracefully. \<open>stopSubscription\<close> closes the NATS connection (and logs
  a failure to close it) when the NATS backend was chosen and does nothing otherwise.
\<close>

theorem Serve_stop_order:
  assumes "Serve config env = Returned s"
  shows "stop s =
           (if Brokers (EventsKafka config) = [] \<and> Servers (EventsNats config) \<noteq> []
            then Nats_conn_Close #
                 (case conn_Close env of
                    Some err \<Rightarrow> [Log_Errorf (''failed to close nats connection: '' @ err)]
                  | None \<Rightarrow> [])
            else [])
           @ [TaskManager_StopAll (2 * Second), GrpcServer_GracefulStop]"
proof -
  from assms obtain backend where
    backend: "Serve_eventBackend config env = Returned backend"
    and s: "stop s = Backend_stopSubscription backend @
              [TaskManager_StopAll (Second * 2), GrpcServer_GracefulStop]"
    by (rule Serve_Returned) simp
  from backend have "Backend_stopSubscription backend =
           (if Brokers (EventsKafka config) = [] \<and> Servers (EventsNats config) \<noteq> []
            then Nats_conn_Close #
                 (case conn_Close env of
                    Some err \<Rightarrow> [Log_Errorf (''failed to close nats connection: '' @ err)]
                  | None \<Rightarrow> [])
            else [])"
    by (auto simp add: Serve_eventBackend_def Let_def split: if_splits option.splits)
  with s show ?thesis by (simp add: mult.commute)
qed

text \<open>The statement above at a concrete input.\<close>

theorem Serve_stop_order_witness:
  "Serve example_config_nats example_environment =
     Returned
       \<lparr>grpcServer = [AnonymousAuthService],
        eventStore = NatsEventStore ''ArmadaEvents'',
        registered = [\<lparr>Task_function = LeaseManager_ExpireLeases,
                       Task_interval = 5000000000,
                       Task_metricName = ''lease_expiry''\<rparr>],
        processorStarted = True,
        stop = [Nats_conn_Close, Log_Errorf ''failed to close nats connection: closed'',
                TaskManager_StopAll 2000000000, GrpcServer_GracefulStop]\<rparr>
   \<and> stop \<lparr>grpcServer = [AnonymousAuthService],
        eventStore = NatsEventStore ''ArmadaEvents'',
        registered = [\<lparr>Task_function = LeaseManager_ExpireLeases,
                       Task_interval = 5000000000,
                       Task_metricName = ''lease_expiry''\<rparr>],
        processorStarted = True,
        stop = [Nats_conn_Close, Log_Errorf ''failed to close nats connection: closed'',
                TaskManager_StopAll 2000000000, GrpcServer_GracefulStop]\<rparr> =
       [Nats_conn_Close, Log_Errorf ''failed to close nats connection: closed'',
        TaskManager_StopAll 2000000000, GrpcServer_GracefulStop]"
proof -
  have served: "Serve example_config_nats example_environment =
     Returned
       \<lparr>grpcServer = [AnonymousAuthService],
        eventStore = NatsEventStore ''ArmadaEvents'',
        registered = [\<lparr>Task_function = LeaseManager_ExpireLeases,
                       Task_interval = 5000000000,
                       Task_metricName = ''lease_expiry''\<rparr>],
        processorStarted = True,
        stop = [Nats_conn_Close, Log_Errorf ''failed to close nats connection: closed'',
                TaskManager_StopAll 2000000000, GrpcServer_GracefulStop]\<rparr>"
    by (simp add: Serve_def createServer_def Serve_eventBackend_def example_config_nats_def
        example_config_def example_environment_def Second_def Millisecond_def)
  show ?thesis
    using served Serve_stop_order [OF served]
    by (simp add: example_config_nats_def example_config_def example_environment_def
        Second_def Millisecond_def)
qed

text \<open>
  C9. Whenever \<open>Serve\<close> returns, the event backend was chosen in a fixed order. With a
  non-empty list of Kafka brokers the event store is the Kafka one and its Redis
  processor is registered as a task polled every 100 milliseconds, whatever the NATS
  settings. Otherwise, with a non-empty list of NATS servers, the event store is the NATS
  one and its processor has been started. Otherwise the event store is the Redis event
  repository.
\<close>

theorem Serve_event_backend_precedence:
  assumes "Serve config env = Returned s"
  shows "(Brokers (EventsKafka config) \<noteq> [] \<longrightarrow>
            eventStore s =
              KafkaEventStore \<lparr>Writer_Brokers = Brokers (EventsKafka config),
                               Writer_Topic = Topic (EventsKafka config)\<rparr>
            \<and> registered s =
                [\<lparr>Task_function =
                    KafkaEventRedisProcessor_ProcessEvents
                      \<lparr>Reader_Brokers = Brokers (EventsKafka config),
                       Reader_GroupID = ConsumerGroupID (EventsKafka config),
                       Reader_Topic = Topic (EventsKafka config),
                       Reader_MaxWait = 500 * Millisecond\<rparr>,
                  Task_interval = 100 * Millisecond,
                  Task_metricName = ''kafka_redis_processor''\<rparr>,
                 \<lparr>Task_function = LeaseManager_ExpireLeases,
                  Task_interval = Scheduling_Lease_ExpiryLoopInterval config,
                  Task_metricName = ''lease_expiry''\<rparr>]
            \<and> \<not> processorStarted s)
         \<and> (Brokers (EventsKafka config) = [] \<and> Servers (EventsNats config) \<noteq> [] \<longrightarrow>
              eventStore s = NatsEventStore (Subject (EventsNats config))
              \<and> registered s =
                  [\<lparr>Task_function = LeaseManager_ExpireLeases,
                    Task_interval = Scheduling_Lease_ExpiryLoopInterval config,
                    Task_metricName = ''lease_expiry''\<rparr>]
              \<and> processorStarted s)
         \<and> (Brokers (EventsKafka config) = [] \<and> Servers (EventsNats config) = [] \<longrightarrow>
              eventStore s = RedisEventRepository
              \<and> registered s =
                  [\<lparr>Task_function = LeaseManager_ExpireLeases,
                    Task_interval = Scheduling_Lease_ExpiryLoopInterval config,
                    Task_metricName = ''lease_expiry''\<rparr>]
              \<and> \<not> processorStarted s)"
proof -
  from assms obtain backend where
    backend: "Serve_eventBackend config env = Returned backend"
    and s: "eventStore s = Backend_eventStore backend"
      "registered s = Backend_registered backend @
            [\<lparr>Task_function = LeaseManager_ExpireLeases,
              Task_interval = Scheduling_Lease_ExpiryLoopInterval config,
              Task_metricName = ''lease_expiry''\<rparr>]"
      "processorStarted s = Backend_processorStarted backend"
    by (rule Serve_Returned) simp
  from backend show ?thesis
    unfolding s
    by (auto simp add: Serve_eventBackend_def Let_def split: if_splits option.splits)
qed

text \<open>The statement above at a concrete input.\<close>

theorem Serve_event_backend_precedence_witness:
  "Serve example_config example_environment =
     Returned
       \<lparr>grpcServer = [AnonymousAuthService],
        eventStore = KafkaEventStore \<lparr>Writer_Brokers = [''kafka:9092''], Writer_Topic = ''events''\<rparr>,
        registered =
          [\<lparr>Task_function =
              KafkaEventRedisProcessor_ProcessEvents
                \<lparr>Reader_Brokers = [''kafka:9092''], Reader_GroupID = ''armada'',
                 Reader_Topic = ''events'', Reader_MaxWait = 500000000\<rparr>,
            Task_interval = 100000000,
            Task_metricName = ''kafka_redis_processor''\<rparr>,
           \<lparr>Task_function = LeaseManager_ExpireLeases,
            Task_interval = 5000000000,
            Task_metricName = ''lease_expiry''\<rparr>],
        processorStarted = False,
        stop = [TaskManager_StopAll 2000000000, GrpcServer_GracefulStop]\<rparr>
   \<and> Brokers (EventsKafka example_config) \<noteq> []
   \<and> Servers (EventsNats example_config) \<noteq> []"
proof -
  have served: "Serve example_config example_environment =
     Returned
       \<lparr>grpcServer = [AnonymousAuthService],
        eventStore = KafkaEventStore \<lparr>Writer_Brokers = [''kafka:9092''], Writer_Topic = ''events''\<rparr>,
        registered =
          [\<lparr>Task_function =
              KafkaEventRedisProcessor_ProcessEvents
                \<lparr>Reader_Brokers = [''kafka:9092''], Reader_GroupID = ''armada'',
                 Reader_Topic = ''events'', Reader_MaxWait = 500000000\<rparr>,
            Task_interval = 100000000,
            Task_metricName = ''kafka_redis_processor''\<rparr>,
           \<lparr>Task_function = LeaseManager_ExpireLeases,
            Task_interval = 5000000000,
            Task_metricName = ''lease_expiry''\<rparr>],
        processorStarted = False,
        stop = [TaskManager_StopAll 2000000000, GrpcServer_GracefulStop]\<rparr>"
    by (simp add: Serve_def createServer_def Serve_eventBackend_def
        example_config_def example_environment_def Second_def Millisecond_def)
  show ?thesis
    using served Serve_event_backend_precedence [OF served]
    by (simp add: example_config_def)
qed

text \<open>
  C10. For a value that carries no job id, and so whenever \<open>JobIdFromEvent\<close> returns an
  error, the first component of the result is not nil: it is a \<open>Uuid\<close> whose \<open>High64\<close>
  and \<open>Low64\<close> are both zero.
\<close>

theorem JobIdFromEvent_error_zero_Uuid:
  "fst (JobIdFromEvent \<lparr>Event = EventSequence_Event_Other\<rparr>) = Some \<lparr>High64 = 0, Low64 = 0\<rparr>
   \<and> (snd (JobIdFromEvent event) \<noteq> None \<longrightarrow>
        fst (JobIdFromEvent event) = Some \<lparr>High64 = 0, Low64 = 0\<rparr>)"
  by (simp split: isEventSequence_Event_Event.splits)

text \<open>The statement above at a concrete input.\<close>

theorem JobIdFromEvent_error_zero_Uuid_witness:
  "snd (JobIdFromEvent \<lparr>Event = EventSequence_Event_Other\<rparr>) \<noteq> None
   \<and> fst (JobIdFromEvent \<lparr>Event = EventSequence_Event_Other\<rparr>) =
       Some \<lparr>High64 = 0, Low64 = 0\<rparr>"
  using JobIdFromEvent_error_zero_Uuid [of "\<lparr>Event = EventSequence_Event_Other\<rparr>"]
  by simp

end
